theory Spec2Isabelle
  imports Main
begin

section \<open>Python values\<close>

text \<open>
  A Python \<open>str\<close> is a sequence of Unicode code points, and \<open>len\<close>, slicing and
  \<open>strip\<close> count code points: a string is modelled as the list of its code points.
  \<open>bytes\<close> is the list of its byte values. \<open>lit\<close> turns an ASCII literal of the
  source into its code points; the double quote is code point 34 and the backslash 92.
\<close>

type_synonym str = "nat list"
type_synonym bytes = "nat list"

definition lit :: "string \<Rightarrow> str" where
  "lit s = map of_char s"

text \<open>
  \<open>str.isspace\<close> of CPython for one character: the code points that \<open>str.strip()\<close>
  without an argument removes.
\<close>

definition isspace :: "nat \<Rightarrow> bool" where
  "isspace c \<longleftrightarrow> c \<in> set [9, 10, 11, 12, 13, 28, 29, 30, 31, 32, 133, 160, 5760,
     8192, 8193, 8194, 8195, 8196, 8197, 8198, 8199, 8200, 8201, 8202,
     8232, 8233, 8239, 8287, 12288]"

definition strip :: "str \<Rightarrow> str" where
  "strip s = rev (dropWhile isspace (rev (dropWhile isspace s)))"

text \<open>\<open>s.replace(old, new)\<close> for strings \<open>old\<close> and \<open>new\<close> of one character each.\<close>

definition replace :: "str \<Rightarrow> nat \<Rightarrow> nat \<Rightarrow> str" where
  "replace s old new = map (\<lambda>c. if c = old then new else c) s"

definition startswith :: "str \<Rightarrow> str \<Rightarrow> bool" where
  "startswith s p \<longleftrightarrow> take (length p) s = p"

text \<open>Truth value of an \<open>Optional\<close> string or byte string: \<open>None\<close> and the empty one are false.\<close>

definition truthy :: "nat list option \<Rightarrow> bool" where
  "truthy x \<longleftrightarrow> (case x of None \<Rightarrow> False | Some s \<Rightarrow> s \<noteq> [])"

section \<open>Filenames\<close>

definition underscore :: nat where
  "underscore = 95"

text \<open>\<open>invalid_chars = '<>:"/\\|?*'\<close>\<close>

definition invalid_chars :: str where
  "invalid_chars = lit ''<>:'' @ [34] @ lit ''/'' @ [92] @ lit ''|?*''"

text \<open>
  \<open>sanitize_filename\<close>: the \<open>for\<close> loop over \<open>invalid_chars\<close> replaces one character
  after the other; then \<open>filename.strip()[:200]\<close>.
\<close>

definition sanitize_filename :: "str \<Rightarrow> str" where
  "sanitize_filename filename =
     take 200 (strip (fold (\<lambda>char fn. replace fn char underscore) invalid_chars filename))"

text \<open>
  The same function in the words of the specification: every character of the unsafe set
  becomes an underscore in one pass, the result is trimmed and cut at 200 characters.
\<close>

definition sanitize_spec :: "str \<Rightarrow> str" where
  "sanitize_spec title =
     take 200 (strip (map (\<lambda>c. if c \<in> set invalid_chars then underscore else c) title))"

record page =
  page_id :: str
  page_title :: str

text \<open>\<open>f"{safe_title}_{page_id}.pdf"\<close> and \<open>f"{safe_title}_{page_id}.html"\<close> of \<open>download_page\<close>.\<close>

definition pdf_filename :: "page \<Rightarrow> str" where
  "pdf_filename p = sanitize_filename (page_title p) @ lit ''_'' @ page_id p @ lit ''.pdf''"

definition html_filename :: "page \<Rightarrow> str" where
  "html_filename p = sanitize_filename (page_title p) @ lit ''_'' @ page_id p @ lit ''.html''"

section \<open>The environment: remote service, renderer and disk\<close>

text \<open>
  The model covers \<open>get_space_pages\<close>, \<open>get_page_content_as_pdf\<close>,
  \<open>get_page_html_content\<close>, \<open>html_to_pdf\<close>, \<open>sanitize_filename\<close>, \<open>download_page\<close> and
  \<open>download_all_pages\<close>. A page descriptor is taken to have its \<open>id\<close> and \<open>title\<close>, both
  strings, and a JSON body to be an object whose entries, where present, have the
  expected type; the pauses of \<open>time.sleep\<close> are left out.
\<close>

text \<open>
  A listing request either raises a \<open>RequestException\<close> in \<open>session.get\<close>, or returns a
  response with a status code and a JSON object, of which only the \<open>results\<close> entry is
  read (\<open>None\<close> when the key is absent).
\<close>

datatype list_response = List_exception | List_response int "page list option"

text \<open>
  An export request either raises, or returns a response with a status code, the
  \<open>content-type\<close> header when there is one, and the body.
\<close>

datatype export_response = Export_exception | Export_response int "str option" bytes

text \<open>
  A content request either raises a \<open>RequestException\<close>, or returns a response with a
  status code and a JSON object, of which only \<open>body.export_view.value\<close> is read
  (\<open>None\<close> when one of the nested keys is absent).
\<close>

datatype content_response = Content_exception | Content_response int "str option"

text \<open>
  The remote service, the rendering engine and the disk are not part of the program. They
  are parameters of the model:
  \<^item> \<open>listing k\<close> is the outcome of the \<open>k\<close>-th request to the content listing during one
    call of \<open>get_space_pages\<close> (\<open>k\<close> counts from 0);
  \<^item> \<open>export_a\<close> and \<open>export_b\<close> are the outcomes of the two PDF export requests
    (\<open>pdfpageexport.action\<close> and \<open>exportword\<close>) for a page id, and \<open>content\<close> the outcome of
    the content request for a page id;
  \<^item> \<open>weasyprint h\<close> is the PDF that WeasyPrint produces for the fragment \<open>h\<close> wrapped in
    the fixed stylesheet of \<open>html_to_pdf\<close>, or \<open>None\<close> when the import or the rendering
    raises;
  \<^item> \<open>writing path\<close> is what becomes of \<open>open(path, 'w...')\<close> followed by \<open>f.write\<close>: the
    data is written; or \<open>open\<close> raises and the disk stays as it is; or \<open>open\<close> creates or
    truncates the file and the write raises after \<open>n\<close> characters of the data have
    reached it;
  \<^item> \<open>stat_raises path\<close> tells whether \<open>Path(path).exists()\<close> raises for a path that is not
    on disk: \<open>exists\<close> answers \<open>False\<close> when \<open>os.stat\<close> finds nothing and passes on every
    other \<open>OSError\<close>, such as a file name that is too long.
\<close>

datatype write_outcome = Written | Open_error | Write_error nat

datatype error = OSError

record env =
  space_key :: str
  listing :: "nat \<Rightarrow> list_response"
  export_a :: "str \<Rightarrow> export_response"
  export_b :: "str \<Rightarrow> export_response"
  content :: "str \<Rightarrow> content_response"
  weasyprint :: "str \<Rightarrow> bytes option"
  writing :: "str \<Rightarrow> write_outcome"
  stat_raises :: "str \<Rightarrow> bool"

datatype file_content = Binary bytes | Text str

text \<open>
  What the program does to the outside, in the order it does it: a listing request with
  its \<open>start\<close> parameter, the three requests for a page id, a call of \<open>html_to_pdf\<close> on
  an HTML fragment, and an attempt to write data to a path (whether or not it raises).
\<close>

datatype event =
    Request_listing int
  | Request_export_a str
  | Request_export_b str
  | Request_content str
  | Render str
  | Write_file str file_content

text \<open>
  Of the log lines, the model keeps those by which \<open>download_all_pages\<close> reports how the
  run ended: the error of the empty listing and the three lines of the summary.
\<close>

datatype level = INFO | ERROR

datatype message =
    No_pages_found
  | Download_completed
  | Successful_downloads nat
  | Failed_downloads nat

record world =
  files :: "str \<rightharpoonup> file_content"
  trace :: "event list"
  logged :: "(level \<times> message) list"

definition emit :: "event \<Rightarrow> world \<Rightarrow> world" where
  "emit e w = w\<lparr>trace := trace w @ [e]\<rparr>"

definition logger :: "level \<Rightarrow> message \<Rightarrow> world \<Rightarrow> world" where
  "logger l m w = w\<lparr>logged := logged w @ [(l, m)]\<rparr>"

text \<open>\<open>self.output_dir / name\<close>, with \<open>output_dir = Path(f"data/confluence_{space_key}")\<close>.\<close>

definition output_dir :: "env \<Rightarrow> str" where
  "output_dir r = lit ''data/confluence_'' @ space_key r"

definition path_join :: "str \<Rightarrow> str \<Rightarrow> str" where
  "path_join dir name = dir @ lit ''/'' @ name"

fun truncated :: "nat \<Rightarrow> file_content \<Rightarrow> file_content" where
  "truncated n (Binary b) = Binary (take n b)"
| "truncated n (Text s) = Text (take n s)"

text \<open>
  What \<open>open(path, 'w...')\<close> followed by \<open>f.write(data)\<close> leaves on a disk that held
  \<open>fs\<close>: a write that raises after \<open>open\<close> leaves the truncated file.
\<close>

definition stored ::
  "env \<Rightarrow> str \<Rightarrow> file_content \<Rightarrow> (str \<rightharpoonup> file_content) \<Rightarrow> (str \<rightharpoonup> file_content)" where
  "stored r path data fs =
     (case writing r path of
        Written \<Rightarrow> fs(path \<mapsto> data)
      | Open_error \<Rightarrow> fs
      | Write_error n \<Rightarrow> fs(path \<mapsto> truncated n data))"

text \<open>
  \<open>with open(path, ...) as f: f.write(data)\<close> inside a \<open>try\<close> whose handler returns
  \<open>False\<close>: the result tells whether the block went through.
\<close>

definition write_file :: "env \<Rightarrow> world \<Rightarrow> str \<Rightarrow> file_content \<Rightarrow> bool \<times> world" where
  "write_file r w path data =
     (let w1 = emit (Write_file path data) w
      in (writing r path = Written, w1\<lparr>files := stored r path data (files w1)\<rparr>))"

text \<open>\<open>Path(path).exists()\<close>\<close>

definition path_exists :: "env \<Rightarrow> world \<Rightarrow> str \<Rightarrow> error + bool" where
  "path_exists r w path =
     (if files w path \<noteq> None then Inr True
      else if stat_raises r path then Inl OSError
      else Inr False)"

section \<open>Listing the pages of a space\<close>

text \<open>\<open>response.raise_for_status()\<close> raises an \<open>HTTPError\<close> for the statuses 400 to 599.\<close>

definition http_error :: "int \<Rightarrow> bool" where
  "http_error status \<longleftrightarrow> 400 \<le> status \<and> status < 600"

text \<open>
  The first four lines of the \<open>try\<close> block of \<open>get_space_pages\<close>: the value of
  \<open>current_pages\<close>, or \<open>None\<close> when \<open>session.get\<close> or \<open>raise_for_status\<close> raises the
  \<open>RequestException\<close> that the \<open>except\<close> clause catches.
\<close>

definition current_pages :: "list_response \<Rightarrow> page list option" where
  "current_pages resp =
     (case resp of
        List_exception \<Rightarrow> None
      | List_response status results \<Rightarrow>
          if http_error status then None
          else Some (case results of None \<Rightarrow> [] | Some ps \<Rightarrow> ps))"

text \<open>
  The \<open>while True\<close> loop of \<open>get_space_pages\<close>: \<open>k\<close> is the number of requests made
  before this one and \<open>requests\<close> their \<open>start\<close> parameters in order. The loop has no
  bound of its own: a service that keeps returning full batches keeps it running, and
  then the function has no value.
\<close>

partial_function (option) get_space_pages_loop ::
  "env \<Rightarrow> int \<Rightarrow> nat \<Rightarrow> int \<Rightarrow> page list \<Rightarrow> int list \<Rightarrow> (page list \<times> int list) option" where
  "get_space_pages_loop r limit k start pages requests =
     (case current_pages (listing r k) of
        None \<Rightarrow> Some (pages, requests @ [start])
      | Some batch \<Rightarrow>
          if int (length batch) < limit then Some (pages @ batch, requests @ [start])
          else get_space_pages_loop r limit (Suc k) (start + limit) (pages @ batch)
                 (requests @ [start]))"

declare get_space_pages_loop.simps [code]

text \<open>
  \<open>get_space_pages\<close> returns the pages; the model returns with them the \<open>start\<close>
  parameters of the requests it made.
\<close>

definition get_space_pages :: "env \<Rightarrow> int \<Rightarrow> (page list \<times> int list) option" where
  "get_space_pages r limit = get_space_pages_loop r limit 0 0 [] []"

text \<open>The batch of the \<open>i\<close>-th listing response: empty when the request failed.\<close>

definition batch_of :: "env \<Rightarrow> nat \<Rightarrow> page list" where
  "batch_of r i = (case current_pages (listing r i) of None \<Rightarrow> [] | Some ps \<Rightarrow> ps)"

section \<open>Fetching one page\<close>

text \<open>
  The test both export attempts apply to a response:
  \<open>status_code == 200 and headers.get('content-type', '').startswith('application/pdf')\<close>;
  an exception in the request is caught and counts as no PDF.
\<close>

definition pdf_response :: "export_response \<Rightarrow> bytes option" where
  "pdf_response resp =
     (case resp of
        Export_exception \<Rightarrow> None
      | Export_response status_code content_type body \<Rightarrow>
          if status_code = 200 \<and>
             startswith (case content_type of None \<Rightarrow> [] | Some t \<Rightarrow> t) (lit ''application/pdf'')
          then Some body else None)"

definition get_page_content_as_pdf :: "env \<Rightarrow> world \<Rightarrow> str \<Rightarrow> bytes option \<times> world" where
  "get_page_content_as_pdf r w pid =
     (let w1 = emit (Request_export_a pid) w
      in case pdf_response (export_a r pid) of
           Some body \<Rightarrow> (Some body, w1)
         | None \<Rightarrow>
             (let w2 = emit (Request_export_b pid) w1
              in case pdf_response (export_b r pid) of
                   Some body \<Rightarrow> (Some body, w2)
                 | None \<Rightarrow> (None, w2)))"

definition get_page_html_content :: "env \<Rightarrow> world \<Rightarrow> str \<Rightarrow> str option \<times> world" where
  "get_page_html_content r w pid =
     (let w1 = emit (Request_content pid) w
      in case content r pid of
           Content_exception \<Rightarrow> (None, w1)
         | Content_response status v \<Rightarrow>
             if http_error status then (None, w1)
             else (Some (case v of None \<Rightarrow> [] | Some html \<Rightarrow> html), w1))"

definition html_to_pdf :: "env \<Rightarrow> world \<Rightarrow> str \<Rightarrow> str \<Rightarrow> bool \<times> world" where
  "html_to_pdf r w html_content output_path =
     (let w1 = emit (Render html_content) w
      in case weasyprint r html_content of
           None \<Rightarrow> (False, w1)
         | Some pdf \<Rightarrow> write_file r w1 output_path (Binary pdf))"

section \<open>Downloading\<close>

text \<open>\<open>f'<div class="page-title">{page_title}</div>{html_content}'\<close>\<close>

definition html_with_title :: "str \<Rightarrow> str \<Rightarrow> str" where
  "html_with_title title html_content =
     lit ''<div class='' @ [34] @ lit ''page-title'' @ [34] @ lit ''>'' @ title
       @ lit ''</div>'' @ html_content"

text \<open>\<open>f'<h1>{page_title}</h1>{html_content}'\<close>\<close>

definition html_with_heading :: "str \<Rightarrow> str \<Rightarrow> str" where
  "html_with_heading title html_content = lit ''<h1>'' @ title @ lit ''</h1>'' @ html_content"

text \<open>\<open>output_path\<close> and \<open>html_path\<close> of \<open>download_page\<close>.\<close>

definition output_path :: "env \<Rightarrow> page \<Rightarrow> str" where
  "output_path r p = path_join (output_dir r) (pdf_filename p)"

definition html_path :: "env \<Rightarrow> page \<Rightarrow> str" where
  "html_path r p = path_join (output_dir r) (html_filename p)"

text \<open>
  \<open>download_page\<close> returns \<open>True\<close> or \<open>False\<close>, or raises what \<open>output_path.exists()\<close>
  raises: that call is outside every \<open>try\<close>.
\<close>

definition download_page :: "env \<Rightarrow> world \<Rightarrow> page \<Rightarrow> (error + bool) \<times> world" where
  "download_page r w p =
     (case path_exists r w (output_path r p) of
        Inl e \<Rightarrow> (Inl e, w)
      | Inr True \<Rightarrow> (Inr True, w)
      | Inr False \<Rightarrow>
          let (pdf_content, w1) = get_page_content_as_pdf r w (page_id p)
          in if truthy pdf_content
             then
               let (saved, w2) = write_file r w1 (output_path r p) (Binary (the pdf_content))
               in (Inr saved, w2)
             else
               let (html_content, w2) = get_page_html_content r w1 (page_id p)
               in if truthy html_content
                  then
                    let (converted, w3) =
                          html_to_pdf r w2 (html_with_title (page_title p) (the html_content))
                            (output_path r p)
                    in if converted then (Inr True, w3)
                       else
                         let (saved, w4) =
                               write_file r w3 (html_path r p)
                                 (Text (html_with_heading (page_title p) (the html_content)))
                         in (Inr saved, w4)
                  else (Inr False, w2))"

text \<open>
  The \<open>for\<close> loop of \<open>download_all_pages\<close> with its two counters. An exception of
  \<open>download_page\<close> ends the loop: the first component is the exception, if any.
\<close>

fun download_loop ::
  "env \<Rightarrow> world \<Rightarrow> page list \<Rightarrow> nat \<Rightarrow> nat \<Rightarrow> error option \<times> world \<times> nat \<times> nat" where
  "download_loop r w [] successful_downloads failed_downloads =
     (None, w, successful_downloads, failed_downloads)"
| "download_loop r w (p # ps) successful_downloads failed_downloads =
     (case download_page r w p of
        (Inl e, w1) \<Rightarrow> (Some e, w1, successful_downloads, failed_downloads)
      | (Inr ok, w1) \<Rightarrow>
          if ok then download_loop r w1 ps (successful_downloads + 1) failed_downloads
          else download_loop r w1 ps successful_downloads (failed_downloads + 1))"

text \<open>
  \<open>download_all_pages\<close> calls \<open>get_space_pages()\<close> with its default \<open>limit = 100\<close>. The
  result is the exception that left the function, if any, and the world; there is no
  result when the listing does not end.
\<close>

definition download_all_pages :: "env \<Rightarrow> world \<Rightarrow> (error option \<times> world) option" where
  "download_all_pages r w =
     (case get_space_pages r 100 of
        None \<Rightarrow> None
      | Some (pages, requests) \<Rightarrow>
          let w1 = w\<lparr>trace := trace w @ map Request_listing requests\<rparr>
          in if pages = [] then Some (None, logger ERROR No_pages_found w1)
             else
               (case download_loop r w1 pages 0 0 of
                  (Some e, w2, successful_downloads, failed_downloads) \<Rightarrow> Some (Some e, w2)
                | (None, w2, successful_downloads, failed_downloads) \<Rightarrow>
                    Some (None,
                      logger INFO (Failed_downloads failed_downloads)
                        (logger INFO (Successful_downloads successful_downloads)
                          (logger INFO Download_completed w2)))))"

section \<open>Notions of the properties\<close>

text \<open>The requests among the events, and the paths of the write attempts among them.\<close>

fun is_request :: "event \<Rightarrow> bool" where
  "is_request (Request_listing _) = True"
| "is_request (Request_export_a _) = True"
| "is_request (Request_export_b _) = True"
| "is_request (Request_content _) = True"
| "is_request (Render _) = False"
| "is_request (Write_file _ _) = False"

fun write_paths :: "event list \<Rightarrow> str list" where
  "write_paths [] = []"
| "write_paths (Write_file path _ # es) = path # write_paths es"
| "write_paths (_ # es) = write_paths es"

text \<open>The events that a step adds to the trace of the world \<open>w\<close> it started from.\<close>

definition new_events :: "world \<Rightarrow> world \<Rightarrow> event list" where
  "new_events w w1 = drop (length (trace w)) (trace w1)"



section \<open>Example inputs\<close>

definition fresh :: world where
  "fresh = \<lparr>files = Map.empty, trace = [], logged = []\<rparr>"

definition intro_page :: page where
  "intro_page = \<lparr>page_id = lit ''101'', page_title = lit ''Intro''\<rparr>"

definition guide_page :: page where
  "guide_page = \<lparr>page_id = lit ''102'', page_title = lit ''Setup Guide''\<rparr>"

text \<open>A service where every request raises, no renderer, a disk that takes every write.\<close>

definition offline :: env where
  "offline = \<lparr>space_key = lit ''DOCS'',
     listing = (\<lambda>k. List_exception),
     export_a = (\<lambda>pid. Export_exception),
     export_b = (\<lambda>pid. Export_exception),
     content = (\<lambda>pid. Content_exception),
     weasyprint = (\<lambda>html. None),
     writing = (\<lambda>path. Written),
     stat_raises = (\<lambda>path. False)\<rparr>"

text \<open>
  Export A answers with a login page, export B with status 500, the content request with
  the page body; the renderer works.
\<close>

definition html_only :: env where
  "html_only = offline\<lparr>
     export_a := (\<lambda>pid. Export_response 200 (Some (lit ''text/html'')) (lit ''<html>login</html>'')),
     export_b := (\<lambda>pid. Export_response 500 None []),
     content := (\<lambda>pid. Content_response 200 (Some (lit ''<p>steps</p>''))),
     weasyprint := (\<lambda>html. Some (lit ''%PDF-'' @ html))\<rparr>"

text \<open>The same service, but the content response has no \<open>body.export_view.value\<close>.\<close>

definition empty_body :: env where
  "empty_body = html_only\<lparr>content := (\<lambda>pid. Content_response 200 None)\<rparr>"

text \<open>Both exports answer 404 without raising; the content response has no body value.\<close>

definition not_found :: env where
  "not_found = offline\<lparr>
     export_a := (\<lambda>pid. Export_response 404 (Some (lit ''text/html'')) []),
     export_b := (\<lambda>pid. Export_response 404 (Some (lit ''text/html'')) []),
     content := (\<lambda>pid. Content_response 200 None)\<rparr>"

text \<open>Export A delivers a PDF, and every \<open>open\<close> for writing raises.\<close>

definition read_only :: env where
  "read_only = offline\<lparr>
     export_a := (\<lambda>pid. Export_response 200 (Some (lit ''application/pdf;charset=UTF-8''))
                   (lit ''%PDF-1.4'')),
     content := (\<lambda>pid. Content_response 200 (Some (lit ''<p>steps</p>''))),
     writing := (\<lambda>path. Open_error)\<rparr>"

text \<open>The same, on a disk where the write raises after four bytes.\<close>

definition pdf_disk_full :: env where
  "pdf_disk_full = read_only\<lparr>writing := (\<lambda>path. Write_error 4)\<rparr>"

text \<open>A space of one page whose exports raise and whose body is served; no renderer.\<close>

definition no_renderer :: env where
  "no_renderer = offline\<lparr>
     listing := (\<lambda>k. List_response 200 (Some [guide_page])),
     content := (\<lambda>pid. Content_response 200 (Some (lit ''<p>steps</p>'')))\<rparr>"

text \<open>The same, on a disk where every write raises after four characters.\<close>

definition disk_full :: env where
  "disk_full = no_renderer\<lparr>writing := (\<lambda>path. Write_error 4)\<rparr>"

text \<open>A space without pages.\<close>

definition empty_space :: env where
  "empty_space = offline\<lparr>listing := (\<lambda>k. List_response 200 (Some []))\<rparr>"

definition numbered :: "nat \<Rightarrow> page" where
  "numbered n = \<lparr>page_id = [48 + n], page_title = lit ''Page''\<rparr>"

text \<open>With \<open>limit = 2\<close>: two full batches, then a batch of one page.\<close>

definition three_batches :: env where
  "three_batches = offline\<lparr>listing := (\<lambda>k.
      if k < 2 then List_response 200 (Some [numbered (2 * k), numbered (2 * k + 1)])
      else List_response 200 (Some [numbered 4]))\<rparr>"

text \<open>With \<open>limit = 2\<close>: one full batch, then status 503.\<close>

definition broken_listing :: env where
  "broken_listing = offline\<lparr>listing := (\<lambda>k.
      if k < 1 then List_response 200 (Some [numbered 0, numbered 1])
      else List_response 503 None)\<rparr>"

text \<open>
  A space of two pages: the exports raise, the body of page 102 is served and the
  content request for page 101 raises; no renderer.
\<close>

definition half_served :: env where
  "half_served = offline\<lparr>
     listing := (\<lambda>k. List_response 200 (Some [guide_page, intro_page])),
     content := (\<lambda>pid. if pid = lit ''102'' then Content_response 200 (Some (lit ''<p>steps</p>''))
                       else Content_exception)\<rparr>"

text \<open>
  A space of two pages: export A delivers a PDF for page 101 only, the body of page 102
  is served; no renderer.
\<close>

definition mixed :: env where
  "mixed = offline\<lparr>
     listing := (\<lambda>k. List_response 200 (Some [intro_page, guide_page])),
     export_a := (\<lambda>pid. if pid = lit ''101''
                        then Export_response 200 (Some (lit ''application/pdf'')) (lit ''%PDF-1.4'')
                        else Export_exception),
     content := (\<lambda>pid. Content_response 200 (Some (lit ''<p>steps</p>'')))\<rparr>"

lemmas example_defs = html_only_def empty_body_def not_found_def read_only_def no_renderer_def
  disk_full_def pdf_disk_full_def half_served_def mixed_def offline_def fresh_def
  guide_page_def intro_page_def

lemmas path_defs = output_path_def html_path_def output_dir_def path_join_def pdf_filename_def
  html_filename_def sanitize_filename_def strip_def isspace_def replace_def invalid_chars_def
  underscore_def

lemmas listing_defs = empty_space_def three_batches_def broken_listing_def offline_def
  numbered_def current_pages_def http_error_def batch_of_def

lemmas page_defs = download_page_def path_exists_def get_page_content_as_pdf_def
  get_page_html_content_def html_to_pdf_def write_file_def stored_def emit_def Let_def
  truthy_def new_events_def

section \<open>Pagination\<close>

lemma get_space_pages_loop_failed:
  "current_pages (listing r k) = None \<Longrightarrow>
     get_space_pages_loop r limit k start pages requests = Some (pages, requests @ [start])"
  by (subst get_space_pages_loop.simps) simp

lemma get_space_pages_loop_short:
  "current_pages (listing r k) = Some ps \<Longrightarrow> int (length ps) < limit \<Longrightarrow>
     get_space_pages_loop r limit k start pages requests = Some (pages @ ps, requests @ [start])"
  by (subst get_space_pages_loop.simps) simp

lemma get_space_pages_loop_full:
  "current_pages (listing r k) = Some ps \<Longrightarrow> limit \<le> int (length ps) \<Longrightarrow>
     get_space_pages_loop r limit k start pages requests =
     get_space_pages_loop r limit (Suc k) (start + limit) (pages @ ps) (requests @ [start])"
  by (subst get_space_pages_loop.simps) simp

lemma upt_shift: "[0..<Suc n] = 0 # map Suc [0..<n]"
  by (simp add: upt_conv_Cons map_Suc_upt del: upt_Suc)

lemma get_space_pages_loop_run:
  assumes "\<forall>i<n. \<exists>ps. current_pages (listing r (k + i)) = Some ps \<and> limit \<le> int (length ps)"
  shows "get_space_pages_loop r limit k start pages requests =
         get_space_pages_loop r limit (k + n) (start + int n * limit)
           (pages @ concat (map (\<lambda>i. batch_of r (k + i)) [0..<n]))
           (requests @ map (\<lambda>i. start + int i * limit) [0..<n])"
  using assms
proof (induction n arbitrary: k start pages requests)
  case 0
  then show ?case by simp
next
  case (Suc n)
  from Suc.prems [rule_format, of 0] obtain ps where
    ps: "current_pages (listing r k) = Some ps" "limit \<le> int (length ps)"
    by auto
  have rest: "\<forall>i<n. \<exists>ps. current_pages (listing r (Suc k + i)) = Some ps \<and> limit \<le> int (length ps)"
    using Suc.prems by (metis Suc_less_eq add_Suc_shift)
  have b: "batch_of r k = ps"
    using ps by (simp add: batch_of_def)
  show ?case
    unfolding get_space_pages_loop_full [OF ps] Suc.IH [OF rest] upt_shift [of n]
    by (simp add: b o_def algebra_simps)
qed

lemma get_space_pages_run:
  assumes "\<forall>i<n. \<exists>ps. current_pages (listing r i) = Some ps \<and> limit \<le> int (length ps)"
  shows "get_space_pages r limit =
         get_space_pages_loop r limit n (int n * limit)
           (concat (map (batch_of r) [0..<n])) (map (\<lambda>i. int i * limit) [0..<n])"
  unfolding get_space_pages_def
  using get_space_pages_loop_run [of n r 0 limit 0 "[]" "[]"] assms
  by simp

text \<open>
  C2. When the first \<open>N\<close> listing responses succeed with exactly \<open>limit\<close> results each and
  response \<open>N\<close> (the next one) succeeds with fewer than \<open>limit\<close> results,
  \<open>get_space_pages\<close> returns: its result is the concatenation of the \<open>N + 1\<close> batches in
  the order received, and the requests it made are exactly the \<open>N + 1\<close> requests with
  \<open>start\<close> = 0, \<open>limit\<close>, 2 \<open>limit\<close>, ..., \<open>N\<close> \<open>limit\<close>; nothing is requested after the short
  batch.
\<close>

theorem get_space_pages_pagination:
  assumes "\<forall>i<N. \<exists>ps. current_pages (listing r i) = Some ps \<and> int (length ps) = limit"
    and "current_pages (listing r N) = Some ps" and "int (length ps) < limit"
  shows "get_space_pages r limit =
           Some (concat (map (batch_of r) [0..<Suc N]), map (\<lambda>i. int i * limit) [0..<Suc N])"
proof -
  have "\<forall>i<N. \<exists>ps. current_pages (listing r i) = Some ps \<and> limit \<le> int (length ps)"
    using assms(1) by auto
  from get_space_pages_run [OF this] show ?thesis
    using assms(2,3) by (simp add: get_space_pages_loop_short batch_of_def)
qed

theorem get_space_pages_pagination_witness:
  "get_space_pages three_batches 2 =
     Some ([numbered 0, numbered 1, numbered 2, numbered 3, numbered 4], [0, 2, 4])"
  using get_space_pages_pagination [of 2 three_batches 2 "[numbered 4]"]
  by (simp add: listing_defs upt_rec less_Suc_eq lit_def)

text \<open>
  C8. When the listing responses before the \<open>k\<close>-th let the loop go on (each succeeds with
  at least \<open>limit\<close> results) and the \<open>k\<close>-th request fails at transport level (the request
  raises, or the status is an HTTP error that \<open>raise_for_status\<close> raises on),
  \<open>get_space_pages\<close> returns normally, and returns exactly the pages of the \<open>k\<close> responses
  received before the failure, in order.
\<close>

theorem get_space_pages_transport_failure:
  assumes "\<forall>i<k. \<exists>ps. current_pages (listing r i) = Some ps \<and> limit \<le> int (length ps)"
    and "listing r k = List_exception \<or>
         (\<exists>status results. listing r k = List_response status results \<and> http_error status)"
  shows "get_space_pages r limit =
           Some (concat (map (batch_of r) [0..<k]), map (\<lambda>i. int i * limit) [0..<Suc k])"
proof -
  have "current_pages (listing r k) = None"
    using assms(2) by (auto simp add: current_pages_def)
  with get_space_pages_run [OF assms(1)] show ?thesis
    by (simp add: get_space_pages_loop_failed)
qed

theorem get_space_pages_transport_failure_witness:
  "get_space_pages broken_listing 2 = Some ([numbered 0, numbered 1], [0, 2])"
  using get_space_pages_transport_failure [of 1 broken_listing 2]
  by (simp add: listing_defs upt_rec lit_def)

section \<open>One page: result, files and trace\<close>

lemma get_page_content_as_pdf_fst:
  "fst (get_page_content_as_pdf r w pid) =
     (case pdf_response (export_a r pid) of Some body \<Rightarrow> Some body
      | None \<Rightarrow> pdf_response (export_b r pid))"
  by (simp add: get_page_content_as_pdf_def Let_def split: option.splits)

lemma get_page_content_as_pdf_snd:
  "snd (get_page_content_as_pdf r w pid) =
     (if pdf_response (export_a r pid) = None
      then emit (Request_export_b pid) (emit (Request_export_a pid) w)
      else emit (Request_export_a pid) w)"
  by (simp add: get_page_content_as_pdf_def Let_def split: option.splits)

lemma get_page_html_content_fst:
  "fst (get_page_html_content r w pid) =
     (case content r pid of Content_exception \<Rightarrow> None
      | Content_response status v \<Rightarrow>
          if http_error status then None else Some (case v of None \<Rightarrow> [] | Some html \<Rightarrow> html))"
  by (simp add: get_page_html_content_def Let_def split: content_response.splits)

lemma get_page_html_content_snd:
  "snd (get_page_html_content r w pid) = emit (Request_content pid) w"
  by (simp add: get_page_html_content_def Let_def split: content_response.splits)

lemma write_file_fst: "fst (write_file r w path data) = (writing r path = Written)"
  by (simp add: write_file_def Let_def)

lemma write_file_snd:
  "snd (write_file r w path data) =
     w\<lparr>files := stored r path data (files w), trace := trace w @ [Write_file path data]\<rparr>"
  by (simp add: write_file_def emit_def Let_def)

lemma html_to_pdf_fst:
  "fst (html_to_pdf r w html path) = (weasyprint r html \<noteq> None \<and> writing r path = Written)"
  by (simp add: html_to_pdf_def write_file_fst Let_def split: option.splits)

lemma html_to_pdf_snd:
  "snd (html_to_pdf r w html path) =
     (case weasyprint r html of None \<Rightarrow> emit (Render html) w
      | Some pdf \<Rightarrow> snd (write_file r (emit (Render html) w) path (Binary pdf)))"
  by (simp add: html_to_pdf_def Let_def split: option.splits)

text \<open>
  \<open>download_page\<close> with the pairs taken apart. What the two fetches and the conversion
  return does not depend on the world they start from.
\<close>

lemma download_page_unfold:
  "download_page r w p =
     (if files w (output_path r p) \<noteq> None then (Inr True, w)
      else if stat_raises r (output_path r p) then (Inl OSError, w)
      else if truthy (fst (get_page_content_as_pdf r w (page_id p)))
      then (Inr (writing r (output_path r p) = Written),
            snd (write_file r (snd (get_page_content_as_pdf r w (page_id p))) (output_path r p)
             (Binary (the (fst (get_page_content_as_pdf r w (page_id p)))))))
      else if truthy (fst (get_page_html_content r w (page_id p)))
      then
        (if fst (html_to_pdf r w
                  (html_with_title (page_title p) (the (fst (get_page_html_content r w (page_id p)))))
                  (output_path r p))
         then (Inr True, snd (html_to_pdf r
                 (emit (Request_content (page_id p)) (snd (get_page_content_as_pdf r w (page_id p))))
                 (html_with_title (page_title p) (the (fst (get_page_html_content r w (page_id p)))))
                 (output_path r p)))
         else (Inr (writing r (html_path r p) = Written),
               snd (write_file r
                (snd (html_to_pdf r
                 (emit (Request_content (page_id p)) (snd (get_page_content_as_pdf r w (page_id p))))
                 (html_with_title (page_title p) (the (fst (get_page_html_content r w (page_id p)))))
                 (output_path r p)))
                (html_path r p)
                (Text (html_with_heading (page_title p)
                   (the (fst (get_page_html_content r w (page_id p)))))))))
      else (Inr False,
            emit (Request_content (page_id p)) (snd (get_page_content_as_pdf r w (page_id p)))))"
  unfolding download_page_def path_exists_def
  by (simp add: split_beta Let_def get_page_html_content_snd get_page_html_content_fst
        html_to_pdf_fst write_file_fst)

lemma trace_emit: "trace (emit e w) = trace w @ [e]"
  by (simp add: emit_def)

lemma files_emit: "files (emit e w) = files w"
  by (simp add: emit_def)

lemma logged_emit: "logged (emit e w) = logged w"
  by (simp add: emit_def)

lemma trace_write_file: "trace (snd (write_file r w path data)) = trace w @ [Write_file path data]"
  by (simp add: write_file_snd)

lemma files_write_file: "files (snd (write_file r w path data)) = stored r path data (files w)"
  by (simp add: write_file_snd)

lemma logged_write_file: "logged (snd (write_file r w path data)) = logged w"
  by (simp add: write_file_snd)

lemma trace_get_page_content_as_pdf:
  "trace (snd (get_page_content_as_pdf r w pid)) =
     trace w @ Request_export_a pid #
       (if pdf_response (export_a r pid) = None then [Request_export_b pid] else [])"
  by (simp add: get_page_content_as_pdf_snd trace_emit)

lemma files_get_page_content_as_pdf:
  "files (snd (get_page_content_as_pdf r w pid)) = files w"
  by (simp add: get_page_content_as_pdf_snd files_emit)

lemma logged_get_page_content_as_pdf: "logged (snd (get_page_content_as_pdf r w pid)) = logged w"
  by (simp add: get_page_content_as_pdf_snd logged_emit)

lemma trace_html_to_pdf:
  "trace (snd (html_to_pdf r w html path)) =
     trace w @ Render html #
       (case weasyprint r html of None \<Rightarrow> [] | Some pdf \<Rightarrow> [Write_file path (Binary pdf)])"
  by (simp add: html_to_pdf_snd trace_emit trace_write_file split: option.splits)

lemma files_html_to_pdf:
  "files (snd (html_to_pdf r w html path)) =
     (case weasyprint r html of None \<Rightarrow> files w
      | Some pdf \<Rightarrow> stored r path (Binary pdf) (files w))"
  by (simp add: html_to_pdf_snd files_emit files_write_file split: option.splits)

lemma logged_html_to_pdf: "logged (snd (html_to_pdf r w html path)) = logged w"
  by (simp add: html_to_pdf_snd logged_emit logged_write_file split: option.splits)




lemma new_events_append:
  "trace w1 = trace w @ es \<Longrightarrow> new_events w w1 = es"
  by (simp add: new_events_def)

lemma new_events_same: "new_events w w = []"
  by (simp add: new_events_def)

text \<open>
  What one call of \<open>download_page\<close> adds to the trace, what it returns and what it leaves
  on disk, when the PDF path is found absent.
\<close>

lemma download_page_trace:
  assumes "files w (output_path r p) = None" and "\<not> stat_raises r (output_path r p)"
  shows "trace (snd (download_page r w p)) =
     trace w @ Request_export_a (page_id p) #
       (if pdf_response (export_a r (page_id p)) = None then [Request_export_b (page_id p)] else []) @
       (if truthy (fst (get_page_content_as_pdf r w (page_id p)))
        then [Write_file (output_path r p)
                (Binary (the (fst (get_page_content_as_pdf r w (page_id p)))))]
        else Request_content (page_id p) #
          (if truthy (fst (get_page_html_content r w (page_id p)))
           then Render (html_with_title (page_title p)
                   (the (fst (get_page_html_content r w (page_id p))))) #
             (case weasyprint r (html_with_title (page_title p)
                     (the (fst (get_page_html_content r w (page_id p))))) of
                None \<Rightarrow> []
              | Some pdf \<Rightarrow> [Write_file (output_path r p) (Binary pdf)]) @
             (if fst (html_to_pdf r w (html_with_title (page_title p)
                     (the (fst (get_page_html_content r w (page_id p))))) (output_path r p))
              then []
              else [Write_file (html_path r p)
                     (Text (html_with_heading (page_title p)
                        (the (fst (get_page_html_content r w (page_id p))))))])
           else []))"
  using assms
  by (simp add: download_page_unfold trace_write_file trace_get_page_content_as_pdf
        trace_html_to_pdf trace_emit)

lemma download_page_fst:
  assumes "files w (output_path r p) = None" and "\<not> stat_raises r (output_path r p)"
  shows "fst (download_page r w p) =
     Inr (if truthy (fst (get_page_content_as_pdf r w (page_id p)))
          then writing r (output_path r p) = Written
          else if truthy (fst (get_page_html_content r w (page_id p)))
          then (fst (html_to_pdf r w (html_with_title (page_title p)
                     (the (fst (get_page_html_content r w (page_id p))))) (output_path r p))
                \<or> writing r (html_path r p) = Written)
          else False)"
  using assms
  by (simp add: download_page_unfold)

lemma download_page_files:
  assumes "files w (output_path r p) = None" and "\<not> stat_raises r (output_path r p)"
  shows "files (snd (download_page r w p)) =
     (if truthy (fst (get_page_content_as_pdf r w (page_id p)))
      then stored r (output_path r p)
             (Binary (the (fst (get_page_content_as_pdf r w (page_id p))))) (files w)
      else if truthy (fst (get_page_html_content r w (page_id p)))
      then (case weasyprint r (html_with_title (page_title p)
                     (the (fst (get_page_html_content r w (page_id p))))) of
              Some pdf \<Rightarrow>
                if writing r (output_path r p) = Written
                then stored r (output_path r p) (Binary pdf) (files w)
                else stored r (html_path r p)
                       (Text (html_with_heading (page_title p)
                          (the (fst (get_page_html_content r w (page_id p))))))
                       (stored r (output_path r p) (Binary pdf) (files w))
            | None \<Rightarrow>
                stored r (html_path r p)
                  (Text (html_with_heading (page_title p)
                     (the (fst (get_page_html_content r w (page_id p)))))) (files w))
      else files w)"
  using assms
  by (simp add: download_page_unfold files_write_file files_get_page_content_as_pdf
        files_html_to_pdf files_emit html_to_pdf_fst split: option.splits)

lemma download_page_logged: "logged (snd (download_page r w p)) = logged w"
  by (simp add: download_page_unfold logged_emit logged_write_file
        logged_get_page_content_as_pdf logged_html_to_pdf)

lemmas download_page_new_events = new_events_append [OF download_page_trace]

lemma write_paths_append: "write_paths (es @ fs) = write_paths es @ write_paths fs"
  by (induction es rule: write_paths.induct) simp_all

lemma download_page_write_paths:
  "set (write_paths (new_events w (snd (download_page r w p)))) \<subseteq>
     {output_path r p, html_path r p}"
proof (cases "files w (output_path r p) = None \<and> \<not> stat_raises r (output_path r p)")
  case True
  then have e: "files w (output_path r p) = None" and s: "\<not> stat_raises r (output_path r p)"
    by simp_all
  show ?thesis
    by (simp add: download_page_new_events [OF e s] write_paths_append split: option.splits)
next
  case False
  then have "snd (download_page r w p) = w"
    by (auto simp add: download_page_unfold)
  then show ?thesis
    by (simp add: new_events_same)
qed

text \<open>When the existence check raises, \<open>download_page\<close> raises and has done nothing.\<close>

lemma download_page_raises:
  "files w (output_path r p) = None \<Longrightarrow> stat_raises r (output_path r p) \<Longrightarrow>
     download_page r w p = (Inl OSError, w)"
  by (simp add: download_page_unfold)





lemma download_page_first_request:
  "files w (output_path r p) = None \<Longrightarrow> \<not> stat_raises r (output_path r p) \<Longrightarrow>
     hd (new_events w (snd (download_page r w p))) = Request_export_a (page_id p)"
  by (simp add: download_page_new_events)

section \<open>Filename sanitisation\<close>

lemma fold_replace_map:
  "fold (\<lambda>char fn. replace fn char u) cs s = map (\<lambda>c. if c \<in> set cs then u else c) s"
  if "u \<notin> set cs"
  using that
proof (induction cs arbitrary: s)
  case Nil
  then show ?case by simp
next
  case (Cons a cs)
  then have "u \<noteq> a" and "u \<notin> set cs" by auto
  with Cons.IH [of "replace s a u"] show ?case
    by (auto simp: replace_def)
qed

lemma underscore_valid: "underscore \<notin> set invalid_chars"
  by (simp add: underscore_def invalid_chars_def lit_def)

lemma sanitize_filename_refines: "sanitize_filename title = sanitize_spec title"
  by (simp add: sanitize_filename_def sanitize_spec_def fold_replace_map [OF underscore_valid])

lemma range_9_13: "9 \<le> c \<and> c \<le> 13 \<longleftrightarrow> c = 9 \<or> c = 10 \<or> c = 11 \<or> c = 12 \<or> c = 13"
  for c :: nat
  by arith

lemma range_28_32: "28 \<le> c \<and> c \<le> 32 \<longleftrightarrow> c = 28 \<or> c = 29 \<or> c = 30 \<or> c = 31 \<or> c = 32"
  for c :: nat
  by arith

lemma range_8192_8202:
  "8192 \<le> c \<and> c \<le> 8202 \<longleftrightarrow>
     c = 8192 \<or> c = 8193 \<or> c = 8194 \<or> c = 8195 \<or> c = 8196 \<or> c = 8197 \<or> c = 8198 \<or>
     c = 8199 \<or> c = 8200 \<or> c = 8201 \<or> c = 8202"
  for c :: nat
  by arith

text \<open>
  C6. For every title, the sanitised title is the title with every occurrence of each of
  the nine unsafe characters replaced by an underscore (code point 95), then trimmed of
  surrounding whitespace, then cut at 200 characters: it has at most 200 characters and
  none of the unsafe ones. Trimming a string \<open>s\<close> removes a prefix and a suffix that
  consist of whitespace only and leaves a string that neither begins nor ends with
  whitespace, whitespace being the characters that \<open>str.isspace\<close> accepts. The file names
  append \<open>_{page_id}\<close> and the extension to that result, so the cut comes before the suffix
  and never touches it; and these are the names \<open>download_page\<close> works with: it skips the
  page when the file with the \<open>.pdf\<close> name exists in the output directory, starts
  fetching when it does not, and writes to no other path than the \<open>.pdf\<close> and the \<open>.html\<close>
  one.
\<close>

theorem sanitize_filename_correct:
  "sanitize_filename title =
     take 200 (strip (map (\<lambda>c. if c \<in> set invalid_chars then underscore else c) title)) \<and>
   invalid_chars = [60, 62, 58, 34, 47, 92, 124, 63, 42] \<and>
   length (sanitize_filename title) \<le> 200 \<and>
   set (sanitize_filename title) \<inter> set invalid_chars = {} \<and>
   pdf_filename \<lparr>page_id = pid, page_title = title\<rparr> =
     sanitize_filename title @ lit ''_'' @ pid @ lit ''.pdf'' \<and>
   html_filename \<lparr>page_id = pid, page_title = title\<rparr> =
     sanitize_filename title @ lit ''_'' @ pid @ lit ''.html'' \<and>
   underscore = 95 \<and>
   (\<exists>pre post. s = pre @ strip s @ post \<and>
      (\<forall>c \<in> set pre. isspace c) \<and> (\<forall>c \<in> set post. isspace c) \<and>
      (strip s \<noteq> [] \<longrightarrow> \<not> isspace (hd (strip s)) \<and> \<not> isspace (last (strip s)))) \<and>
   (isspace c \<longleftrightarrow>
      9 \<le> c \<and> c \<le> 13 \<or> 28 \<le> c \<and> c \<le> 32 \<or> c = 133 \<or> c = 160 \<or> c = 5760 \<or>
      8192 \<le> c \<and> c \<le> 8202 \<or> c = 8232 \<or> c = 8233 \<or> c = 8239 \<or> c = 8287 \<or> c = 12288) \<and>
   output_path r \<lparr>page_id = pid, page_title = title\<rparr> =
     lit ''data/confluence_'' @ space_key r @ lit ''/'' @
     sanitize_filename title @ lit ''_'' @ pid @ lit ''.pdf'' \<and>
   html_path r \<lparr>page_id = pid, page_title = title\<rparr> =
     lit ''data/confluence_'' @ space_key r @ lit ''/'' @
     sanitize_filename title @ lit ''_'' @ pid @ lit ''.html'' \<and>
   (files w (output_path r \<lparr>page_id = pid, page_title = title\<rparr>) \<noteq> None \<longrightarrow>
      download_page r w \<lparr>page_id = pid, page_title = title\<rparr> = (Inr True, w)) \<and>
   (files w (output_path r \<lparr>page_id = pid, page_title = title\<rparr>) = None \<and>
    \<not> stat_raises r (output_path r \<lparr>page_id = pid, page_title = title\<rparr>) \<longrightarrow>
      hd (new_events w (snd (download_page r w \<lparr>page_id = pid, page_title = title\<rparr>))) =
        Request_export_a pid) \<and>
   set (write_paths (new_events w (snd (download_page r w \<lparr>page_id = pid, page_title = title\<rparr>))))
     \<subseteq> {output_path r \<lparr>page_id = pid, page_title = title\<rparr>,
         html_path r \<lparr>page_id = pid, page_title = title\<rparr>}"
proof -
  let ?p = "\<lparr>page_id = pid, page_title = title\<rparr>"
  have "sanitize_filename title =
     take 200 (strip (map (\<lambda>c. if c \<in> set invalid_chars then underscore else c) title))"
    by (simp add: sanitize_filename_def fold_replace_map [OF underscore_valid])
  moreover have "invalid_chars = [60, 62, 58, 34, 47, 92, 124, 63, 42]"
    by (simp add: invalid_chars_def lit_def)
  moreover have "length (sanitize_filename title) \<le> 200"
    by (simp add: sanitize_filename_def)
  moreover have "set (sanitize_filename title) \<inter> set invalid_chars = {}"
  proof -
    let ?m = "map (\<lambda>c. if c \<in> set invalid_chars then underscore else c) title"
    have "set (sanitize_filename title) \<subseteq> set (strip ?m)"
      by (simp add: sanitize_filename_def fold_replace_map [OF underscore_valid] set_take_subset)
    also have "\<dots> \<subseteq> set (dropWhile isspace ?m)"
      unfolding strip_def using set_dropWhileD by fastforce
    also have "\<dots> \<subseteq> set ?m"
      using set_dropWhileD by fastforce
    finally have "set (sanitize_filename title) \<subseteq> set ?m" .
    moreover have "set ?m \<inter> set invalid_chars = {}"
      using underscore_valid by auto
    ultimately show ?thesis by blast
  qed
  moreover have "pdf_filename ?p = sanitize_filename title @ lit ''_'' @ pid @ lit ''.pdf''"
    by (simp add: pdf_filename_def)
  moreover have "html_filename ?p = sanitize_filename title @ lit ''_'' @ pid @ lit ''.html''"
    by (simp add: html_filename_def)
  moreover have "underscore = 95"
    by (simp add: underscore_def)
  moreover have "\<exists>pre post. s = pre @ strip s @ post \<and>
      (\<forall>c \<in> set pre. isspace c) \<and> (\<forall>c \<in> set post. isspace c) \<and>
      (strip s \<noteq> [] \<longrightarrow> \<not> isspace (hd (strip s)) \<and> \<not> isspace (last (strip s)))"
  proof -
    define b where "b = dropWhile isspace s"
    define d where "d = dropWhile isspace (rev b)"
    define post where "post = rev (takeWhile isspace (rev b))"
    have st: "strip s = rev d"
      by (simp add: strip_def b_def d_def)
    have "rev b = takeWhile isspace (rev b) @ d"
      by (simp add: d_def)
    then have "rev (rev b) = rev (takeWhile isspace (rev b) @ d)"
      by (rule arg_cong)
    then have b: "b = rev d @ post"
      by (simp add: post_def)
    have "s = takeWhile isspace s @ b"
      by (simp add: b_def)
    then have s: "s = takeWhile isspace s @ strip s @ post"
      using b st by simp
    have pre: "\<forall>c \<in> set (takeWhile isspace s). isspace c"
      by (auto dest: set_takeWhileD)
    have po: "\<forall>c \<in> set post. isspace c"
      by (auto simp add: post_def dest: set_takeWhileD)
    have ends: "\<not> isspace (hd (strip s)) \<and> \<not> isspace (last (strip s))" if ne: "strip s \<noteq> []"
    proof -
      have dne: "d \<noteq> []" using ne st by simp
      then have "\<not> isspace (hd d)"
        unfolding d_def by (rule hd_dropWhile)
      then have l: "\<not> isspace (last (strip s))"
        by (simp add: st last_rev)
      have bne: "b \<noteq> []" using b dne by simp
      then have "\<not> isspace (hd b)"
        unfolding b_def by (rule hd_dropWhile)
      moreover have "hd b = hd (rev d)"
        using b dne by simp
      ultimately have "\<not> isspace (hd (strip s))"
        by (simp add: st)
      with l show ?thesis by simp
    qed
    from s pre po ends show ?thesis by blast
  qed
  moreover have "isspace c \<longleftrightarrow>
      9 \<le> c \<and> c \<le> 13 \<or> 28 \<le> c \<and> c \<le> 32 \<or> c = 133 \<or> c = 160 \<or> c = 5760 \<or>
      8192 \<le> c \<and> c \<le> 8202 \<or> c = 8232 \<or> c = 8233 \<or> c = 8239 \<or> c = 8287 \<or> c = 12288"
    unfolding isspace_def range_9_13 range_28_32 range_8192_8202
    by (simp only: list.set insert_iff empty_iff) blast
  moreover have "output_path r ?p =
     lit ''data/confluence_'' @ space_key r @ lit ''/'' @
     sanitize_filename title @ lit ''_'' @ pid @ lit ''.pdf''"
    by (simp add: output_path_def path_join_def output_dir_def pdf_filename_def)
  moreover have "html_path r ?p =
     lit ''data/confluence_'' @ space_key r @ lit ''/'' @
     sanitize_filename title @ lit ''_'' @ pid @ lit ''.html''"
    by (simp add: html_path_def path_join_def output_dir_def html_filename_def)
  moreover have "files w (output_path r ?p) \<noteq> None \<longrightarrow> download_page r w ?p = (Inr True, w)"
    by (simp add: download_page_def path_exists_def)
  moreover have "files w (output_path r ?p) = None \<and> \<not> stat_raises r (output_path r ?p) \<longrightarrow>
      hd (new_events w (snd (download_page r w ?p))) = Request_export_a pid"
    using download_page_first_request [of w r ?p] by simp
  moreover have "set (write_paths (new_events w (snd (download_page r w ?p))))
     \<subseteq> {output_path r ?p, html_path r ?p}"
    by (rule download_page_write_paths)
  ultimately show ?thesis
    by (intro conjI)
qed

theorem sanitize_filename_correct_witness:
  "output_path offline \<lparr>page_id = lit ''101'', page_title = lit '' My/Page:Name? ''\<rparr> =
     lit ''data/confluence_DOCS/My_Page_Name__101.pdf'' \<and>
   sanitize_filename (replicate 250 233) = replicate 200 233"
proof -
  note t = sanitize_filename_correct [where title = "lit '' My/Page:Name? ''" and pid = "lit ''101''"
      and r = offline and w = fresh and s = "[]" and c = 0]
  note u = sanitize_filename_correct [where title = "replicate 250 233" and pid = "[]"
      and r = offline and w = fresh and s = "[]" and c = 0, THEN conjunct1]
  note t1 = t [THEN conjunct1]
  note t10 = t [THEN conjunct2, THEN conjunct2, THEN conjunct2, THEN conjunct2, THEN conjunct2,
      THEN conjunct2, THEN conjunct2, THEN conjunct2, THEN conjunct2, THEN conjunct1]
  have "output_path offline \<lparr>page_id = lit ''101'', page_title = lit '' My/Page:Name? ''\<rparr> =
     lit ''data/confluence_DOCS/My_Page_Name__101.pdf''"
    unfolding t10 t1
    by (simp add: lit_def invalid_chars_def underscore_def strip_def isspace_def offline_def)
  moreover have "sanitize_filename (replicate 250 233) = replicate 200 233"
    unfolding u
    by (simp add: invalid_chars_def underscore_def strip_def isspace_def lit_def)
  ultimately show ?thesis by simp
qed

section \<open>Skipping what is already there\<close>

text \<open>
  C5. When a file exists at the PDF path computed for a page, whatever its content,
  \<open>download_page\<close> reports success and leaves the world as it was: no request, no
  rendering and no write is added to the trace, and the file is not read.
\<close>

theorem download_page_skips_existing:
  "files w (output_path r p) = Some c \<Longrightarrow>
     download_page r w p = (Inr True, w) \<and> new_events w (snd (download_page r w p)) = []"
  by (simp add: download_page_def path_exists_def new_events_def)

theorem download_page_skips_existing_witness:
  "download_page offline
     (fresh\<lparr>files := [output_path offline intro_page \<mapsto> Binary []]\<rparr>) intro_page =
     (Inr True, fresh\<lparr>files := [output_path offline intro_page \<mapsto> Binary []]\<rparr>)"
  using download_page_skips_existing
    [of "fresh\<lparr>files := [output_path offline intro_page \<mapsto> Binary []]\<rparr>" offline intro_page
        "Binary []"]
  by simp

section \<open>The fetch cascade\<close>


text \<open>
  C1 (as amended). For a page whose PDF path the existence check finds absent, the
  requests of \<open>download_page\<close> are, in this order: export A; export B, exactly when the
  response of A was not accepted; the content request, exactly when the response of A
  was accepted with an empty body, or when that of A was not accepted and that of B was
  not accepted or was accepted with an empty body. When the first accepted response has
  a non-empty body, the only write is that of this body to the PDF path. An export
  response is accepted exactly when its status is 200 and its content type starts with
  \<open>application/pdf\<close>. When export A returns a response that is not of that content type,
  export B returns status 500, the content request succeeds with a non-empty HTML body,
  the renderer converts it and the write of the PDF file does not raise, the page is
  reported successful and its PDF file holds the rendering of the HTML with the title
  block in front.
\<close>

theorem download_page_cascade:
  assumes "files w (output_path r p) = None" and "\<not> stat_raises r (output_path r p)"
  shows "filter is_request (new_events w (snd (download_page r w p))) =
      Request_export_a (page_id p) #
      (case pdf_response (export_a r (page_id p)) of
         Some body \<Rightarrow> if body = [] then [Request_content (page_id p)] else []
       | None \<Rightarrow>
           Request_export_b (page_id p) #
           (case pdf_response (export_b r (page_id p)) of
              Some body \<Rightarrow> if body = [] then [Request_content (page_id p)] else []
            | None \<Rightarrow> [Request_content (page_id p)])) \<and>
    ((pdf_response (export_a r (page_id p)) = Some bytes \<or>
      pdf_response (export_a r (page_id p)) = None \<and>
      pdf_response (export_b r (page_id p)) = Some bytes) \<and> bytes \<noteq> [] \<longrightarrow>
       write_paths (new_events w (snd (download_page r w p))) = [output_path r p] \<and>
       last (new_events w (snd (download_page r w p))) =
         Write_file (output_path r p) (Binary bytes)) \<and>
    (pdf_response resp = Some body \<longleftrightarrow>
       (\<exists>ct. resp = Export_response 200 (Some ct) body \<and> startswith ct (lit ''application/pdf''))) \<and>
    (export_a r (page_id p) = Export_response sa ta ba \<and>
     \<not> startswith (case ta of None \<Rightarrow> [] | Some t \<Rightarrow> t) (lit ''application/pdf'') \<and>
     export_b r (page_id p) = Export_response 500 tb bb \<and>
     content r (page_id p) = Content_response status (Some html) \<and>
     \<not> http_error status \<and> html \<noteq> [] \<and>
     weasyprint r (html_with_title (page_title p) html) = Some pdf \<and>
     writing r (output_path r p) = Written \<longrightarrow>
       fst (download_page r w p) = Inr True \<and>
       files (snd (download_page r w p)) = (files w)(output_path r p \<mapsto> Binary pdf) \<and>
       new_events w (snd (download_page r w p)) =
         [Request_export_a (page_id p), Request_export_b (page_id p),
          Request_content (page_id p), Render (html_with_title (page_title p) html),
          Write_file (output_path r p) (Binary pdf)])"
proof (intro conjI impI)
  show "filter is_request (new_events w (snd (download_page r w p))) =
      Request_export_a (page_id p) #
      (case pdf_response (export_a r (page_id p)) of
         Some body \<Rightarrow> if body = [] then [Request_content (page_id p)] else []
       | None \<Rightarrow>
           Request_export_b (page_id p) #
           (case pdf_response (export_b r (page_id p)) of
              Some body \<Rightarrow> if body = [] then [Request_content (page_id p)] else []
            | None \<Rightarrow> [Request_content (page_id p)]))"
  proof -
    have cascade: "fst (get_page_content_as_pdf r w (page_id p)) =
        (case pdf_response (export_a r (page_id p)) of
           Some body \<Rightarrow> Some body
         | None \<Rightarrow> pdf_response (export_b r (page_id p)))"
      by (simp add: get_page_content_as_pdf_def Let_def split: option.splits)
    show ?thesis
      by (simp add: download_page_new_events [OF assms] cascade truthy_def split: option.splits)
  qed
next
  assume "(pdf_response (export_a r (page_id p)) = Some bytes \<or>
      pdf_response (export_a r (page_id p)) = None \<and>
      pdf_response (export_b r (page_id p)) = Some bytes) \<and> bytes \<noteq> []"
  with assms
  have "new_events w (snd (download_page r w p)) =
      Request_export_a (page_id p) #
      (if pdf_response (export_a r (page_id p)) = None then [Request_export_b (page_id p)]
       else []) @ [Write_file (output_path r p) (Binary bytes)]"
    by (auto simp add: page_defs)
  then show "write_paths (new_events w (snd (download_page r w p))) = [output_path r p]"
    and "last (new_events w (snd (download_page r w p))) =
         Write_file (output_path r p) (Binary bytes)"
    by (simp_all add: write_paths_append)
next
  show "pdf_response resp = Some body \<longleftrightarrow>
       (\<exists>ct. resp = Export_response 200 (Some ct) body \<and> startswith ct (lit ''application/pdf''))"
    by (cases resp) (auto simp add: pdf_response_def startswith_def lit_def split: option.splits)
next
  assume h: "export_a r (page_id p) = Export_response sa ta ba \<and>
     \<not> startswith (case ta of None \<Rightarrow> [] | Some t \<Rightarrow> t) (lit ''application/pdf'') \<and>
     export_b r (page_id p) = Export_response 500 tb bb \<and>
     content r (page_id p) = Content_response status (Some html) \<and>
     \<not> http_error status \<and> html \<noteq> [] \<and>
     weasyprint r (html_with_title (page_title p) html) = Some pdf \<and>
     writing r (output_path r p) = Written"
  with assms show "fst (download_page r w p) = Inr True"
    and "files (snd (download_page r w p)) = (files w)(output_path r p \<mapsto> Binary pdf)"
    and "new_events w (snd (download_page r w p)) =
         [Request_export_a (page_id p), Request_export_b (page_id p),
          Request_content (page_id p), Render (html_with_title (page_title p) html),
          Write_file (output_path r p) (Binary pdf)]"
    by (simp_all add: page_defs pdf_response_def)
qed

theorem download_page_cascade_witness:
  "fst (download_page html_only fresh guide_page) = Inr True \<and>
   files (snd (download_page html_only fresh guide_page))
     (lit ''data/confluence_DOCS/Setup Guide_102.pdf'') =
       Some (Binary (lit ''%PDF-<div class='' @ [34] @ lit ''page-title'' @ [34] @
                        lit ''>Setup Guide</div><p>steps</p>''))"
  using download_page_cascade [where w = fresh and r = html_only and p = guide_page
      and sa = 200 and ta = "Some (lit ''text/html'')" and ba = "lit ''<html>login</html>''"
      and tb = None and bb = "[]" and status = 200 and html = "lit ''<p>steps</p>''"
      and pdf = "lit ''%PDF-'' @ html_with_title (lit ''Setup Guide'') (lit ''<p>steps</p>'')"]
  by (simp add: example_defs path_defs html_with_title_def startswith_def http_error_def lit_def)

text \<open>
  The claim as stated fails when the content request succeeds with a response that has no
  body value: export A returns a login page, export B status 500, the content request
  status 200; the page is reported failed and nothing is rendered or written.
\<close>

theorem download_page_cascade_counterexample:
  "export_a empty_body (lit ''102'') =
     Export_response 200 (Some (lit ''text/html'')) (lit ''<html>login</html>'') \<and>
   export_b empty_body (lit ''102'') = Export_response 500 None [] \<and>
   content empty_body (lit ''102'') = Content_response 200 None \<and>
   fst (get_page_html_content empty_body fresh (lit ''102'')) = Some [] \<and>
   fst (download_page empty_body fresh guide_page) = Inr False \<and>
   trace (snd (download_page empty_body fresh guide_page)) =
     [Request_export_a (lit ''102''), Request_export_b (lit ''102''),
      Request_content (lit ''102'')]"
  by (simp add: example_defs download_page_def path_exists_def get_page_content_as_pdf_def
        get_page_html_content_def pdf_response_def truthy_def emit_def Let_def path_defs
        startswith_def http_error_def lit_def)

section \<open>Falling back to raw HTML\<close>

text \<open>
  C7. For a page whose PDF path the existence check finds absent: when the exports
  yielded nothing, a non-empty HTML body was obtained and \<open>html_to_pdf\<close> returns
  \<open>False\<close>, the last thing \<open>download_page\<close> does is to write the
  HTML with an \<open>h1\<close> title heading in front to the \<open>.html\<close> path; the page is reported
  successful when that write goes through, and then the file holds that text. A page is
  reported failed only if neither PDF bytes nor HTML were obtained (none, or empty), or
  if at least one write was attempted and every attempted write raised.
\<close>

theorem download_page_html_fallback:
  "(files w (output_path r p) = None \<and> \<not> stat_raises r (output_path r p) \<and>
    \<not> truthy (fst (get_page_content_as_pdf r w (page_id p))) \<and>
    fst (get_page_html_content r w (page_id p)) = Some html \<and> html \<noteq> [] \<and>
    \<not> fst (html_to_pdf r w (html_with_title (page_title p) html) (output_path r p))
    \<longrightarrow>
      last (trace (snd (download_page r w p))) =
        Write_file (html_path r p) (Text (html_with_heading (page_title p) html)) \<and>
      fst (download_page r w p) = Inr (writing r (html_path r p) = Written) \<and>
      (writing r (html_path r p) = Written \<longrightarrow>
         files (snd (download_page r w p)) (html_path r p) =
           Some (Text (html_with_heading (page_title p) html)))) \<and>
   (fst (download_page r w p) = Inr False \<longrightarrow>
      (\<not> truthy (fst (get_page_content_as_pdf r w (page_id p))) \<and>
       \<not> truthy (fst (get_page_html_content r w (page_id p)))) \<or>
      (write_paths (new_events w (snd (download_page r w p))) \<noteq> [] \<and>
       (\<forall>path \<in> set (write_paths (new_events w (snd (download_page r w p)))).
          writing r path \<noteq> Written)))"
proof (intro conjI impI)
  assume h: "files w (output_path r p) = None \<and> \<not> stat_raises r (output_path r p) \<and>
    \<not> truthy (fst (get_page_content_as_pdf r w (page_id p))) \<and>
    fst (get_page_html_content r w (page_id p)) = Some html \<and> html \<noteq> [] \<and>
    \<not> fst (html_to_pdf r w (html_with_title (page_title p) html) (output_path r p))"
  then have t: "truthy (fst (get_page_html_content r w (page_id p)))"
    by (simp add: truthy_def)
  from h t show "last (trace (snd (download_page r w p))) =
        Write_file (html_path r p) (Text (html_with_heading (page_title p) html))"
    by (simp add: download_page_trace)
  from h t show "fst (download_page r w p) = Inr (writing r (html_path r p) = Written)"
    by (simp add: download_page_fst)
  assume "writing r (html_path r p) = Written"
  with h t show "files (snd (download_page r w p)) (html_path r p) =
           Some (Text (html_with_heading (page_title p) html))"
    by (auto simp add: download_page_files html_to_pdf_fst stored_def split: option.splits)
next
  assume n: "fst (download_page r w p) = Inr False"
  have e: "files w (output_path r p) = None"
    using n by (cases "files w (output_path r p)") (simp_all add: download_page_unfold)
  have s: "\<not> stat_raises r (output_path r p)"
    using n e by (cases "stat_raises r (output_path r p)") (simp_all add: download_page_unfold)
  show "(\<not> truthy (fst (get_page_content_as_pdf r w (page_id p))) \<and>
       \<not> truthy (fst (get_page_html_content r w (page_id p)))) \<or>
      (write_paths (new_events w (snd (download_page r w p))) \<noteq> [] \<and>
       (\<forall>path \<in> set (write_paths (new_events w (snd (download_page r w p)))).
          writing r path \<noteq> Written))"
  proof (cases "truthy (fst (get_page_content_as_pdf r w (page_id p)))")
    case True
    with e s n show ?thesis
      by (simp add: download_page_fst download_page_new_events [OF e s] write_paths_append
            split: if_splits)
  next
    case False
    show ?thesis
    proof (cases "truthy (fst (get_page_html_content r w (page_id p)))")
      case True
      with False e s n show ?thesis
        by (auto simp add: download_page_fst download_page_new_events [OF e s]
              write_paths_append html_to_pdf_fst split: if_splits option.splits)
    next
      case f2: False
      with False show ?thesis by simp
    qed
  qed
qed

theorem download_page_html_fallback_witness:
  "fst (download_page no_renderer fresh guide_page) = Inr True \<and>
   files (snd (download_page no_renderer fresh guide_page))
     (lit ''data/confluence_DOCS/Setup Guide_102.html'') =
       Some (Text (lit ''<h1>Setup Guide</h1><p>steps</p>'')) \<and>
   fst (download_page disk_full fresh guide_page) = Inr False \<and>
   write_paths (new_events fresh (snd (download_page disk_full fresh guide_page))) \<noteq> []"
  using download_page_html_fallback [of fresh no_renderer guide_page "lit ''<p>steps</p>''"]
    download_page_html_fallback [of fresh disk_full guide_page "lit ''<p>steps</p>''"]
  by (simp add: example_defs path_defs get_page_content_as_pdf_fst
        get_page_html_content_fst html_to_pdf_fst pdf_response_def truthy_def http_error_def
        html_with_heading_def lit_def)

section \<open>A served page without a body\<close>

text \<open>
  C9. When the PDF path is found absent, neither export response is accepted, and the
  content request succeeds with a response that lacks \<open>body.export_view.value\<close>, the
  extracted HTML is the empty string, and \<open>download_page\<close> reports the page failed after
  its three requests, without rendering and without writing a file. The example that
  follows is such an input in which no request raised.
\<close>

theorem download_page_empty_body:
  assumes "files w (output_path r p) = None" and "\<not> stat_raises r (output_path r p)"
    and "pdf_response (export_a r (page_id p)) = None"
    and "pdf_response (export_b r (page_id p)) = None"
    and "content r (page_id p) = Content_response status None"
    and "\<not> http_error status"
  shows "fst (get_page_html_content r w (page_id p)) = Some [] \<and>
         fst (download_page r w p) = Inr False \<and>
         files (snd (download_page r w p)) = files w \<and>
         new_events w (snd (download_page r w p)) =
           [Request_export_a (page_id p), Request_export_b (page_id p),
            Request_content (page_id p)]"
using assms
  by (simp add: page_defs)

theorem download_page_empty_body_witness:
  "export_a not_found (lit ''101'') \<noteq> Export_exception \<and>
   export_b not_found (lit ''101'') \<noteq> Export_exception \<and>
   content not_found (lit ''101'') = Content_response 200 None \<and>
   fst (download_page not_found fresh intro_page) = Inr False \<and>
   files (snd (download_page not_found fresh intro_page)) = files fresh \<and>
   new_events fresh (snd (download_page not_found fresh intro_page)) =
     [Request_export_a (lit ''101''), Request_export_b (lit ''101''),
      Request_content (lit ''101'')]"
  using download_page_empty_body [of fresh not_found intro_page 200]
  by (simp add: example_defs path_defs pdf_response_def http_error_def lit_def)

section \<open>A PDF that cannot be saved\<close>

text \<open>
  C10. For a page whose PDF path the existence check finds absent: when an export
  yielded non-empty PDF bytes and writing them to the PDF path raises, \<open>download_page\<close> reports the page failed at once: after the export requests the
  only event is that write attempt; there is no content request, no rendering and no
  write of an \<open>.html\<close> file. The disk is as before when \<open>open\<close> raised; when the write
  raised after \<open>open\<close>, the PDF path holds the part of the bytes that was written.
\<close>

theorem download_page_pdf_write_error:
  assumes "files w (output_path r p) = None" and "\<not> stat_raises r (output_path r p)"
    and "pdf_response (export_a r (page_id p)) = Some body \<or>
         pdf_response (export_a r (page_id p)) = None \<and>
         pdf_response (export_b r (page_id p)) = Some body"
    and "body \<noteq> []"
    and "writing r (output_path r p) \<noteq> Written"
  shows "fst (download_page r w p) = Inr False \<and>
         new_events w (snd (download_page r w p)) =
            Request_export_a (page_id p) #
            (if pdf_response (export_a r (page_id p)) = None then [Request_export_b (page_id p)]
             else []) @
            [Write_file (output_path r p) (Binary body)] \<and>
         (writing r (output_path r p) = Open_error \<longrightarrow>
            files (snd (download_page r w p)) = files w) \<and>
         (\<forall>n. writing r (output_path r p) = Write_error n \<longrightarrow>
            files (snd (download_page r w p)) =
              (files w)(output_path r p \<mapsto> Binary (take n body)))"
  using assms
  by (auto simp add: page_defs split: write_outcome.splits)

theorem download_page_pdf_write_error_witness:
  "fst (download_page read_only fresh intro_page) = Inr False \<and>
   new_events fresh (snd (download_page read_only fresh intro_page)) =
     [Request_export_a (lit ''101''),
      Write_file (lit ''data/confluence_DOCS/Intro_101.pdf'') (Binary (lit ''%PDF-1.4''))] \<and>
   files (snd (download_page read_only fresh intro_page)) = files fresh \<and>
   fst (download_page pdf_disk_full fresh intro_page) = Inr False \<and>
   files (snd (download_page pdf_disk_full fresh intro_page))
     (lit ''data/confluence_DOCS/Intro_101.pdf'') = Some (Binary (lit ''%PDF''))"
  using download_page_pdf_write_error [of fresh read_only intro_page "lit ''%PDF-1.4''"]
    download_page_pdf_write_error [of fresh pdf_disk_full intro_page "lit ''%PDF-1.4''"]
  by (simp add: example_defs path_defs pdf_response_def startswith_def lit_def)

section \<open>The whole run\<close>










text \<open>
  C3 (as amended). For a space with zero pages (the first listing response succeeds with
  no results), \<open>get_space_pages\<close> returns the empty list after one request, for every
  positive \<open>limit\<close>; \<open>download_all_pages\<close> then logs the error "No pages found or error
  fetching pages" and returns: it downloads nothing and logs no summary.
\<close>

theorem download_all_pages_empty:
  assumes "current_pages (listing r 0) = Some []"
  shows "(0 < limit \<longrightarrow> get_space_pages r limit = Some ([], [0])) \<and>
         download_all_pages r w =
           Some (None, w\<lparr>trace := trace w @ [Request_listing 0],
                   logged := logged w @ [(ERROR, No_pages_found)]\<rparr>)"
proof -
  have g: "get_space_pages r limit = Some ([], [0])" if "0 < limit" for limit
    unfolding get_space_pages_def
    using get_space_pages_loop_short [OF assms, of limit 0 "[]" "[]"] that by simp
  have "download_all_pages r w =
           Some (None, w\<lparr>trace := trace w @ [Request_listing 0],
                   logged := logged w @ [(ERROR, No_pages_found)]\<rparr>)"
    by (simp add: download_all_pages_def g [of 100] logger_def)
  with g show ?thesis by blast
qed

theorem download_all_pages_empty_witness:
  "download_all_pages empty_space fresh =
     Some (None,
       \<lparr>files = Map.empty, trace = [Request_listing 0], logged = [(ERROR, No_pages_found)]\<rparr>)"
  using download_all_pages_empty [where r = empty_space and w = fresh and limit = 100]
  by (simp add: listing_defs fresh_def)

text \<open>
  The claim as stated fails on the empty space: the only line logged is the error, at
  level \<open>ERROR\<close>, and no count of successes or failures is reported.
\<close>

theorem download_all_pages_empty_counterexample:
  "get_space_pages empty_space 100 = Some ([], [0]) \<and>
   map_option fst (download_all_pages empty_space fresh) = Some None \<and>
   map_option logged (map_option snd (download_all_pages empty_space fresh)) =
     Some [(ERROR, No_pages_found)]"
proof -
  have "current_pages (listing empty_space 0) = Some []"
    by (simp add: listing_defs)
  from get_space_pages_loop_short [OF this, of 100 0 "[]" "[]"]
  have "get_space_pages empty_space 100 = Some ([], [0])"
    by (simp add: get_space_pages_def)
  then show ?thesis
    by (simp add: download_all_pages_def logger_def fresh_def)
qed











end
